theory Spec2Isabelle
  imports Complex_Main
begin

section \<open>Python values and exceptions\<close>

text \<open>
  The program is one Python module, \<^verbatim>\<open>main.py\<close>. Its own logic is in two functions:
  \<^verbatim>\<open>web_search\<close>, a throttled search tool, and \<^verbatim>\<open>safe_run_sync\<close>, a retry loop around
  \<^verbatim>\<open>Runner.run_sync\<close>. The rest of the module declares agents and their tool lists.

  An exception is its class and the text \<^verbatim>\<open>str(e)\<close>. Every class below derives from
  \<^verbatim>\<open>Exception\<close>, so \<^verbatim>\<open>except Exception\<close> catches each of them; \<open>RateLimitError\<close> stands
  for any instance of \<^verbatim>\<open>openai.RateLimitError\<close>. Signals that derive from
  \<^verbatim>\<open>BaseException\<close> only (an interrupt, a cancelled task) are outside the model.
\<close>

datatype exc_class = PyException | RateLimitError | ValueError | OtherError string

datatype py_exc = Exc (exc_cls: exc_class) (exc_msg: string)

text \<open>
  The values found in a search result: JSON strings and \<^verbatim>\<open>null\<close>. \<open>truthy\<close> is Python's
  truth test (what \<^verbatim>\<open>or\<close> looks at), \<open>py_str\<close> is what an f-string prints.
\<close>

datatype pyval = PyNone | PyStr string

fun truthy :: "pyval \<Rightarrow> bool" where
  "truthy PyNone = False"
| "truthy (PyStr s) = (s \<noteq> [])"

fun py_str :: "pyval \<Rightarrow> string" where
  "py_str PyNone = ''None''"
| "py_str (PyStr s) = s"

text \<open>\<^verbatim>\<open>a or b\<close>: the first operand when it is truthy, the second otherwise.\<close>

definition py_or :: "pyval \<Rightarrow> pyval \<Rightarrow> pyval" where
  "py_or a b = (if truthy a then a else b)"

text \<open>
  A result entry is a dict from field names to values. \<^verbatim>\<open>r.get(k, d)\<close> is \<open>dict_get\<close>;
  \<^verbatim>\<open>r.get(k)\<close> is \<open>dict_get r k PyNone\<close>.
\<close>

type_synonym entry = "string \<rightharpoonup> pyval"

definition dict_get :: "entry \<Rightarrow> string \<Rightarrow> pyval \<Rightarrow> pyval" where
  "dict_get r k d = (case r k of None \<Rightarrow> d | Some v \<Rightarrow> v)"

text \<open>
  The provider's response is a dict of which the code reads the key \<^verbatim>\<open>"results"\<close> only:
  \<open>results\<close> is \<open>None\<close> when the key is absent and the list of entries otherwise. The
  awaited call \<^verbatim>\<open>tavily_client.search(query=..., max_results=...)\<close> either returns a
  response or raises.
\<close>

datatype response = Response (results: "entry list option")

datatype reply = Raises py_exc | Returns response

type_synonym client = "string \<Rightarrow> int \<Rightarrow> reply"

text \<open>\<^verbatim>\<open>sep.join(xs)\<close>.\<close>

fun str_join :: "string \<Rightarrow> string list \<Rightarrow> string" where
  "str_join sep [] = []"
| "str_join sep [x] = x"
| "str_join sep (x # y # ys) = x @ sep @ str_join sep (y # ys)"

text \<open>\<^verbatim>\<open>p in s\<close> on strings: \<open>p\<close> occurs in \<open>s\<close> as a contiguous substring.\<close>

fun starts_with :: "string \<Rightarrow> string \<Rightarrow> bool" where
  "starts_with [] s = True"
| "starts_with (p # ps) [] = False"
| "starts_with (p # ps) (c # cs) = (p = c \<and> starts_with ps cs)"

fun contains :: "string \<Rightarrow> string \<Rightarrow> bool" where
  "contains p [] = (p = [])"
| "contains p (c # cs) = (starts_with p (c # cs) \<or> contains p cs)"

section \<open>Agents and tools\<close>

text \<open>
  \<^verbatim>\<open>Agent(name=..., instructions=..., model=..., tools=[...])\<close>. A tool is a decorated
  function (\<^verbatim>\<open>@function_tool\<close>) or an agent exposed by \<^verbatim>\<open>as_tool(name, description)\<close>.
  The instructions are prompts for the language model; no code of the module reads
  them, and they are left out of the record.
\<close>

datatype tool = FunctionTool string | AgentTool agent string string
  and agent = Agent (agent_name: string) (agent_model: string) (agent_tools: "tool list")

definition as_tool :: "agent \<Rightarrow> string \<Rightarrow> string \<Rightarrow> tool" where
  "as_tool a tool_name tool_description = AgentTool a tool_name tool_description"

fun tool_name :: "tool \<Rightarrow> string" where
  "tool_name (FunctionTool n) = n"
| "tool_name (AgentTool a n d) = n"

definition light_model :: string where
  "light_model = ''gemini-2.5-flash-lite''"

definition llm_model :: string where
  "llm_model = ''gemini-2.5-flash''"

definition special_model :: string where
  "special_model = ''gemini-2.5-pro''"

definition websearch_agent :: agent where
  "websearch_agent = Agent ''WebSearchAgent'' llm_model [FunctionTool ''web_search'']"

definition reflection_agent :: agent where
  "reflection_agent = Agent ''ReflectionAgent'' light_model []"

definition planning_agent :: agent where
  "planning_agent = Agent ''PlanningAgent'' special_model []"

definition synthesis_agent :: agent where
  "synthesis_agent = Agent ''synthesis_agent'' light_model []"

definition report_writer_agent :: agent where
  "report_writer_agent = Agent ''report_writer_agent'' light_model []"

definition orchestrator_agent :: agent where
  "orchestrator_agent = Agent ''OrchestratorAgent'' llm_model
     [FunctionTool ''current_date'',
      as_tool planning_agent ''PlanningTool'' ''Planning assistant with scientific reasoning'',
      as_tool reflection_agent ''ReflectionTool'' ''Reflection assistant'',
      as_tool websearch_agent ''WebSearchTool'' ''Real web search assistant with citations'',
      as_tool report_writer_agent ''ReportWriterTool''
        ''Creates the final polished research report with citations'',
      as_tool synthesis_agent ''SynthesisTool'' ''Merges and organizes research findings'']"

section \<open>The world: clock, limiter timestamp and effects\<close>

text \<open>
  \<^verbatim>\<open>Runner.run_sync\<close> returns a run result, of which the module reads \<^verbatim>\<open>final_output\<close>.
\<close>

datatype run_result = RunResult (final_output: string)

text \<open>
  What the module prints, by its content: the debug line of \<^verbatim>\<open>web_search\<close> and the two
  retry messages of \<^verbatim>\<open>safe_run_sync\<close>, each with the attempt number shown
  (\<^verbatim>\<open>attempt+1\<close>) and the waiting time.
\<close>

datatype line =
    DebugTavily response
  | RateLimitHit int int
  | QuotaExceeded int int

text \<open>
  The state the module's functions read and change. \<open>clock\<close> is what \<^verbatim>\<open>time.time()\<close>
  returns, in seconds, taken as an exact real number. \<open>last_call_time\<close> is the module's
  global of that name. The other fields record effects in the order they happen:
  \<open>issued\<close> the clock readings at which a provider call was issued, \<open>slept\<close> the
  durations given to \<^verbatim>\<open>time.sleep\<close>, \<open>printed\<close> the lines printed, \<open>runs\<close> the number of
  calls of \<^verbatim>\<open>Runner.run_sync\<close> made so far.
\<close>

record world =
  clock :: real
  last_call_time :: real
  issued :: "real list"
  slept :: "real list"
  printed :: "line list"
  runs :: nat

text \<open>The module starts with \<^verbatim>\<open>last_call_time = 0\<close>; \<open>t0\<close> is the clock at start.\<close>

definition initial_world :: "real \<Rightarrow> world" where
  "initial_world t0 =
     \<lparr>clock = t0, last_call_time = 0, issued = [], slept = [], printed = [], runs = 0\<rparr>"

definition time_time :: "world \<Rightarrow> real" where
  "time_time w = clock w"

text \<open>
  \<^verbatim>\<open>time.sleep(d)\<close> raises \<^verbatim>\<open>ValueError\<close> on a negative duration and blocks for \<open>d\<close>
  seconds otherwise.
\<close>

definition time_sleep :: "real \<Rightarrow> world \<Rightarrow> py_exc + world" where
  "time_sleep d w =
     (if d < 0 then Inl (Exc ValueError ''sleep length must be non-negative'')
      else Inr (w\<lparr>clock := clock w + d, slept := slept w @ [d]\<rparr>))"

text \<open>
  Time that passes without the program asking for it: a sleep that lasts longer than
  requested, scheduling, the time a provider call takes, the time between two calls.
\<close>

definition elapse :: "real \<Rightarrow> world \<Rightarrow> world" where
  "elapse d w = w\<lparr>clock := clock w + d\<rparr>"

section \<open>The search tool\<close>

text \<open>
  \<^verbatim>\<open>
  title = r.get("title", "No Title")
  url = r.get("url", "No URL")
  snippet = r.get("snippet") or r.get("content") or "No snippet available"
  formatted.append(f"- {title} ({url}): {snippet}")
  \<close>
\<close>

definition format_entry :: "entry \<Rightarrow> string" where
  "format_entry r =
     (let title = dict_get r ''title'' (PyStr ''No Title'');
          url = dict_get r ''url'' (PyStr ''No URL'');
          snippet = py_or (py_or (dict_get r ''snippet'' PyNone) (dict_get r ''content'' PyNone))
                      (PyStr ''No snippet available'')
      in ''- '' @ py_str title @ '' ('' @ py_str url @ ''): '' @ py_str snippet)"

text \<open>
  \<^verbatim>\<open>web_search(query, max_results)\<close>, lines 52 to 81. \<open>tavily_client\<close> is the module's
  search client. \<open>lag\<close> is the time that passes between the two readings of the clock
  (lines 58 and 62) beyond the sleep the function asks for. The result is \<open>Inl\<close> an
  exception that leaves the function, or \<open>Inr\<close> the string returned. The function is a
  coroutine whose first \<^verbatim>\<open>await\<close> is the provider call: lines 57 to 62 run without
  interleaving, and \<^verbatim>\<open>time.sleep\<close> blocks the whole event loop.
\<close>

definition web_search ::
    "client \<Rightarrow> real \<Rightarrow> string \<Rightarrow> int \<Rightarrow> world \<Rightarrow> (py_exc + string) \<times> world" where
  "web_search tavily_client lag query max_results w =
     (let elapsed = time_time w - last_call_time w in
      case (if elapsed < 6 then time_sleep (6 - elapsed) w else Inr w) of
        Inl e \<Rightarrow> (Inl e, w)
      | Inr w1 \<Rightarrow>
          (let w2 = elapse lag w1;
               w3 = w2\<lparr>last_call_time := time_time w2\<rparr>;
               w4 = w3\<lparr>issued := issued w3 @ [time_time w3]\<rparr>
           in case tavily_client query max_results of
                Raises e \<Rightarrow> (Inr (''WebSearchTool failed: '' @ exc_msg e), w4)
              | Returns res \<Rightarrow>
                  (let w5 = w4\<lparr>printed := printed w4 @ [DebugTavily res]\<rparr>
                   in case results res of
                        None \<Rightarrow> (Inr ''No results found.'', w5)
                      | Some rs \<Rightarrow>
                          if rs = [] then (Inr ''No results found.'', w5)
                          else (Inr (str_join [CHR 0x0A] (map format_entry rs)), w5))))"

text \<open>
  A sequence of searches. Each call has its own query, its own provider behaviour, the
  time \<open>c_idle\<close> that passes before it (since the previous call was issued, or since the
  start) and its \<open>c_lag\<close>.
\<close>

record search_call =
  c_idle :: real
  c_lag :: real
  c_query :: string
  c_max :: int
  c_client :: client

fun searches :: "search_call list \<Rightarrow> world \<Rightarrow> world" where
  "searches [] w = w"
| "searches (c # cs) w =
     searches cs
       (snd (web_search (c_client c) (c_lag c) (c_query c) (c_max c) (elapse (c_idle c) w)))"

section \<open>The retry wrapper\<close>

text \<open>
  What one call \<^verbatim>\<open>Runner.run_sync(agent, prompt, max_turns=max_turns)\<close> does. The runner
  is the agents library, outside the module; its behaviour may differ from call to call,
  so it is a function of the number of calls made before.
\<close>

datatype outcome = Ok run_result | Raise py_exc

type_synonym runner = "agent \<Rightarrow> string \<Rightarrow> int \<Rightarrow> nat \<Rightarrow> outcome"

text \<open>
  \<^verbatim>\<open>safe_run_sync\<close>, lines 196 to 214: the \<^verbatim>\<open>while attempt < max_retries\<close> loop, from
  the current value of \<open>attempt\<close>.
\<close>

function safe_run_loop ::
    "runner \<Rightarrow> agent \<Rightarrow> string \<Rightarrow> int \<Rightarrow> int \<Rightarrow> int \<Rightarrow> nat \<Rightarrow> world
      \<Rightarrow> (py_exc + run_result) \<times> world" where
  "safe_run_loop run_sync agent prompt max_turns max_retries base_delay attempt w =
     (if int attempt < max_retries then
        (let w1 = w\<lparr>runs := Suc (runs w)\<rparr> in
         case run_sync agent prompt max_turns (runs w) of
           Ok r \<Rightarrow> (Inr r, w1)
         | Raise e \<Rightarrow>
             if exc_cls e = RateLimitError then
               (let wait_time = base_delay * 2 ^ attempt;
                    w2 = w1\<lparr>printed := printed w1 @ [RateLimitHit (int attempt + 1) wait_time]\<rparr>
                in case time_sleep (real_of_int wait_time) w2 of
                     Inl err \<Rightarrow> (Inl err, w2)
                   | Inr w3 \<Rightarrow>
                       safe_run_loop run_sync agent prompt max_turns max_retries base_delay
                         (Suc attempt) w3)
             else if contains ''RESOURCE_EXHAUSTED'' (exc_msg e) \<or> contains ''429'' (exc_msg e) then
               (let wait_time = base_delay * 2 ^ attempt;
                    w2 = w1\<lparr>printed := printed w1 @ [QuotaExceeded (int attempt + 1) wait_time]\<rparr>
                in case time_sleep (real_of_int wait_time) w2 of
                     Inl err \<Rightarrow> (Inl err, w2)
                   | Inr w3 \<Rightarrow>
                       safe_run_loop run_sync agent prompt max_turns max_retries base_delay
                         (Suc attempt) w3)
             else (Inl e, w1))
      else (Inl (Exc PyException ''Too many retries, giving up.''), w))"
  by pat_completeness auto
termination
  by (relation "measure (\<lambda>(r, a, p, t, max_retries, b, attempt, w). nat (max_retries - int attempt))")
     auto

declare safe_run_loop.simps [simp del]

definition safe_run_sync ::
    "runner \<Rightarrow> agent \<Rightarrow> string \<Rightarrow> int \<Rightarrow> int \<Rightarrow> int \<Rightarrow> world
      \<Rightarrow> (py_exc + run_result) \<times> world" where
  "safe_run_sync run_sync agent prompt max_turns max_retries base_delay w =
     safe_run_loop run_sync agent prompt max_turns max_retries base_delay 0 w"

text \<open>
  The module's own call, lines 219 to 223: the orchestrator, the fixed request,
  \<^verbatim>\<open>max_turns=20\<close>, and the defaults \<^verbatim>\<open>max_retries=5\<close>, \<^verbatim>\<open>base_delay=5\<close>.
\<close>

definition research_prompt :: string where
  "research_prompt =
     ''Do deep search for a lead generation system for a professiona business services consultancy.''"

definition main_run :: "runner \<Rightarrow> world \<Rightarrow> (py_exc + run_result) \<times> world" where
  "main_run run_sync w = safe_run_sync run_sync orchestrator_agent research_prompt 20 5 5 w"

section \<open>Vocabulary of the properties\<close>

text \<open>
  A transient error, in the words of the specification: a rate-limit signal, or an
  error whose message contains \<^verbatim>\<open>RESOURCE_EXHAUSTED\<close> or \<^verbatim>\<open>429\<close>.
\<close>

definition transient :: "py_exc \<Rightarrow> bool" where
  "transient e \<longleftrightarrow>
     exc_cls e = RateLimitError \<or> contains ''RESOURCE_EXHAUSTED'' (exc_msg e)
       \<or> contains ''429'' (exc_msg e)"

text \<open>
  The backoff delays before retrying attempts \<open>0, \<dots>, n - 1\<close>, in the words of the
  specification: \<open>base_delay * 2 ^ k\<close> for the 0-indexed attempt \<open>k\<close>.
\<close>

definition backoff :: "int \<Rightarrow> nat \<Rightarrow> real list" where
  "backoff base_delay n = map (\<lambda>k. real_of_int (base_delay * 2 ^ k)) [0..<n]"

text \<open>Call-start timestamps in which each is at least 6 seconds after the one before.\<close>

definition spaced :: "real list \<Rightarrow> bool" where
  "spaced ts = successively (\<lambda>s t. s + 6 \<le> t) ts"

text \<open>
  The limiter's state is coherent when the timestamps issued so far are spaced and the
  global holds the latest of them.
\<close>

definition limiter_ok :: "world \<Rightarrow> bool" where
  "limiter_ok w \<longleftrightarrow>
     spaced (issued w) \<and> (issued w = [] \<or> last (issued w) = last_call_time w)"

text \<open>
  The entry format as the specification words it: each of title, url and snippet is
  the field's value, or its placeholder when the field is missing.
\<close>

definition spec_field :: "entry \<Rightarrow> string \<Rightarrow> string \<Rightarrow> string" where
  "spec_field r k placeholder = (case r k of None \<Rightarrow> placeholder | Some v \<Rightarrow> py_str v)"

definition spec_format_entry :: "entry \<Rightarrow> string" where
  "spec_format_entry r =
     ''- '' @ spec_field r ''title'' ''No Title'' @ '' ('' @ spec_field r ''url'' ''No URL''
       @ ''): '' @ spec_field r ''snippet'' ''No snippet available''"

text \<open>
  The entry format with the snippet chosen in three steps: the field \<^verbatim>\<open>snippet\<close> when it
  is present and not empty, otherwise the field \<^verbatim>\<open>content\<close> when it is present and not
  empty, otherwise the placeholder.
\<close>

definition nonempty_field :: "entry \<Rightarrow> string \<Rightarrow> string option" where
  "nonempty_field r k =
     (case r k of
        Some (PyStr s) \<Rightarrow> if s = [] then None else Some s
      | _ \<Rightarrow> None)"

definition snippet_or_content :: "entry \<Rightarrow> string" where
  "snippet_or_content r =
     (case nonempty_field r ''snippet'' of
        Some s \<Rightarrow> s
      | None \<Rightarrow>
          (case nonempty_field r ''content'' of
             Some c \<Rightarrow> c
           | None \<Rightarrow> ''No snippet available''))"

definition entry_line :: "entry \<Rightarrow> string" where
  "entry_line r =
     ''- '' @ spec_field r ''title'' ''No Title'' @ '' ('' @ spec_field r ''url'' ''No URL''
       @ ''): '' @ snippet_or_content r"




text \<open>
  Stand-ins for the outside services, for concrete runs: a search client that always
  answers the same, and a runner that plays a list of outcomes, one per call, and then
  repeats a last one.
\<close>

definition fixed_client :: "reply \<Rightarrow> client" where
  "fixed_client r query max_results = r"

definition scripted_runner :: "outcome list \<Rightarrow> outcome \<Rightarrow> runner" where
  "scripted_runner script rest agent prompt max_turns k =
     (if k < length script then script ! k else rest)"

section \<open>Substring test\<close>

text \<open>\<open>contains\<close> is Python's \<^verbatim>\<open>in\<close> on strings: some prefix and suffix surround the pattern.\<close>

lemma starts_with_iff: "starts_with p s \<longleftrightarrow> (\<exists>b. s = p @ b)"
  by (induction p s rule: starts_with.induct) auto

lemma contains_iff: "contains p s \<longleftrightarrow> (\<exists>a b. s = a @ p @ b)"
proof (induction s)
  case Nil
  then show ?case by auto
next
  case (Cons c cs)
  show ?case
  proof
    assume "contains p (c # cs)"
    then consider "starts_with p (c # cs)" | "contains p cs" by auto
    then show "\<exists>a b. c # cs = a @ p @ b"
    proof cases
      case 1
      then obtain b where "c # cs = p @ b" by (auto simp: starts_with_iff)
      then have "c # cs = [] @ p @ b" by simp
      then show ?thesis by blast
    next
      case 2
      then obtain a b where "cs = a @ p @ b" using Cons.IH by blast
      then have "c # cs = (c # a) @ p @ b" by simp
      then show ?thesis by blast
    qed
  next
    assume "\<exists>a b. c # cs = a @ p @ b"
    then obtain a b where ab: "c # cs = a @ p @ b" by blast
    show "contains p (c # cs)"
    proof (cases a)
      case Nil
      then have "starts_with p (c # cs)" using ab by (auto simp: starts_with_iff)
      then show ?thesis by simp
    next
      case (Cons x a')
      then have "cs = a' @ p @ b" using ab by simp
      then have "contains p cs" using Cons.IH by blast
      then show ?thesis by simp
    qed
  qed
qed

section \<open>Properties of the search tool\<close>

subsection \<open>What one call returns and what it does to the limiter\<close>

lemma web_search_returns:
  "fst (web_search tc lag q m w) =
     Inr (case tc q m of
            Raises e \<Rightarrow> ''WebSearchTool failed: '' @ exc_msg e
          | Returns res \<Rightarrow>
              (case results res of
                 None \<Rightarrow> ''No results found.''
               | Some rs \<Rightarrow>
                   if rs = [] then ''No results found.''
                   else str_join [CHR 0x0A] (map format_entry rs)))"
  by (simp add: web_search_def time_sleep_def Let_def split: reply.splits option.splits)

lemma web_search_start:
  "last_call_time (snd (web_search tc lag q m w)) = max (clock w) (last_call_time w + 6) + lag"
  by (simp add: web_search_def time_sleep_def time_time_def elapse_def Let_def max_def
      split: reply.splits option.splits)

lemma web_search_clock:
  "clock (snd (web_search tc lag q m w)) = last_call_time (snd (web_search tc lag q m w))"
  by (simp add: web_search_def time_sleep_def time_time_def elapse_def Let_def
      split: reply.splits option.splits)

lemma web_search_issued:
  "issued (snd (web_search tc lag q m w)) =
     issued w @ [last_call_time (snd (web_search tc lag q m w))]"
  by (simp add: web_search_def time_sleep_def time_time_def elapse_def Let_def
      split: reply.splits option.splits)

lemma web_search_slept:
  "slept (snd (web_search tc lag q m w)) =
     (if clock w - last_call_time w < 6 then slept w @ [6 - (clock w - last_call_time w)]
      else slept w)"
  by (simp add: web_search_def time_sleep_def time_time_def elapse_def Let_def
      split: reply.splits option.splits)

lemma web_search_limiter_ok:
  assumes "limiter_ok w" and "0 \<le> lag"
  shows "limiter_ok (snd (web_search tc lag q m w))"
proof -
  let ?w' = "snd (web_search tc lag q m w)"
  have gap: "last_call_time w + 6 \<le> last_call_time ?w'"
    using assms(2) by (simp add: web_search_start)
  have iss: "issued ?w' = issued w @ [last_call_time ?w']"
    by (rule web_search_issued)
  have "spaced (issued w @ [last_call_time ?w'])"
    using assms(1) gap
    by (auto simp: limiter_ok_def spaced_def successively_append_iff)
  then show ?thesis
    using iss by (simp add: limiter_ok_def)
qed

lemma elapse_limiter_ok: "limiter_ok (elapse d w) = limiter_ok w"
  by (simp add: limiter_ok_def elapse_def)

lemma searches_limiter_ok:
  "\<forall>c\<in>set cs. 0 \<le> c_lag c \<Longrightarrow> limiter_ok w \<Longrightarrow> limiter_ok (searches cs w)"
proof (induction cs arbitrary: w)
  case Nil
  then show ?case by simp
next
  case (Cons c cs)
  have "limiter_ok (snd (web_search (c_client c) (c_lag c) (c_query c) (c_max c)
      (elapse (c_idle c) w)))"
    using Cons.prems by (intro web_search_limiter_ok) (simp_all add: elapse_limiter_ok)
  then show ?case
    using Cons.IH Cons.prems by simp
qed

lemma format_entry_eq: "format_entry = entry_line"
  by (rule ext) (auto simp: format_entry_def entry_line_def spec_field_def snippet_or_content_def
      nonempty_field_def dict_get_def py_or_def Let_def
      split: option.splits pyval.splits)

subsection \<open>Minimum interval between provider calls\<close>

text \<open>
  Claim C1. In every sequence of searches through the one limiter, started before any
  provider call was issued, each provider call is issued at least 6 seconds after the
  one before, and there is one provider call per search. In each call: when less than 6
  seconds have passed since \<open>last_call_time\<close> the function sleeps for the remainder, and
  \<open>last_call_time\<close> is set to the clock's reading at the moment the provider call is
  issued. The clock is taken not to run backwards between the two readings of a call
  (\<open>c_lag\<close> is not negative); nothing is asked of the time between calls.
\<close>

theorem web_search_min_interval:
  assumes "\<forall>c\<in>set cs. 0 \<le> c_lag c"
      and "issued w = []"
  shows "spaced (issued (searches cs w))
       \<and> length (issued (searches cs w)) = length cs
       \<and> (\<forall>tc lag q m v.
            slept (snd (web_search tc lag q m v)) =
              (if clock v - last_call_time v < 6
               then slept v @ [6 - (clock v - last_call_time v)] else slept v)
          \<and> last_call_time (snd (web_search tc lag q m v)) = clock (snd (web_search tc lag q m v))
          \<and> issued (snd (web_search tc lag q m v)) =
              issued v @ [last_call_time (snd (web_search tc lag q m v))])"
proof -
  have "limiter_ok w"
    using assms(2) by (simp add: limiter_ok_def spaced_def)
  then have "limiter_ok (searches cs w)"
    using assms(1) by (intro searches_limiter_ok)
  then have a: "spaced (issued (searches cs w))"
    by (simp add: limiter_ok_def)
  have "length (issued (searches ds v)) = length (issued v) + length ds" for ds v
    by (induction ds arbitrary: v) (simp_all add: web_search_issued elapse_def)
  then have b: "length (issued (searches cs w)) = length cs"
    using assms(2) by simp
  show ?thesis
    using a b web_search_slept web_search_clock web_search_issued by simp
qed

text \<open>
  Three searches from a clock reading of 1000: the second is asked for one second after
  the first and is held back to 1006, then issued half a second late.
\<close>

theorem web_search_min_interval_witness:
  "issued (searches
      [\<lparr>c_idle = 0, c_lag = 0, c_query = ''leads'', c_max = 5,
         c_client = fixed_client (Returns (Response None))\<rparr>,
       \<lparr>c_idle = 1, c_lag = 1 / 2, c_query = ''crm'', c_max = 5,
         c_client = fixed_client (Raises (Exc PyException ''boom''))\<rparr>,
       \<lparr>c_idle = 30, c_lag = 0, c_query = ''b2b'', c_max = 5,
         c_client = fixed_client (Returns (Response (Some [])))\<rparr>]
      (initial_world 1000)) = [1000, 2013 / 2, 2073 / 2]
   \<and> spaced [1000, 2013 / 2, 2073 / 2]"
  using web_search_min_interval [of
      "[\<lparr>c_idle = 0, c_lag = 0, c_query = ''leads'', c_max = 5,
         c_client = fixed_client (Returns (Response None))\<rparr>,
       \<lparr>c_idle = 1, c_lag = 1 / 2, c_query = ''crm'', c_max = 5,
         c_client = fixed_client (Raises (Exc PyException ''boom''))\<rparr>,
       \<lparr>c_idle = 30, c_lag = 0, c_query = ''b2b'', c_max = 5,
         c_client = fixed_client (Returns (Response (Some [])))\<rparr>]"
      "initial_world 1000"]
  by (simp add: initial_world_def web_search_def fixed_client_def time_sleep_def time_time_def
      elapse_def Let_def spaced_def)

subsection \<open>Provider failures become text\<close>

text \<open>
  Claim C5. When the provider raises an exception with message \<open>m\<close> on a query, the
  tool returns the string \<^verbatim>\<open>WebSearchTool failed: \<close> followed by \<open>m\<close>; the result is a
  returned string (\<open>Inr\<close>), not an exception that leaves the function.
\<close>

theorem web_search_reports_failure:
  assumes "tavily_client query max_results = Raises (Exc c m)"
  shows "fst (web_search tavily_client lag query max_results w) =
           Inr (''WebSearchTool failed: '' @ m)"
  using assms web_search_returns [of tavily_client lag query max_results w]
  by simp

theorem web_search_reports_failure_witness:
  "fst (web_search (fixed_client (Raises (Exc (OtherError ''ConnectionError'') ''boom''))) 0
      ''leads'' 5 (initial_world 1000)) = Inr ''WebSearchTool failed: boom''"
  using web_search_reports_failure [of
      "fixed_client (Raises (Exc (OtherError ''ConnectionError'') ''boom''))" "''leads''" 5
      "OtherError ''ConnectionError''" "''boom''" 0 "initial_world 1000"]
  by (simp add: fixed_client_def)

subsection \<open>No results\<close>

text \<open>
  Claim C6. When the provider's response has no results (the key is absent, or the list
  is empty), the tool returns exactly \<^verbatim>\<open>No results found.\<close>, which is not the empty string.
\<close>

theorem web_search_no_results:
  assumes "tavily_client query max_results = Returns res"
      and "results res = None \<or> results res = Some []"
  shows "fst (web_search tavily_client lag query max_results w) = Inr ''No results found.''
       \<and> fst (web_search tavily_client lag query max_results w) \<noteq> Inr []"
  using assms web_search_returns [of tavily_client lag query max_results w]
  by auto

theorem web_search_no_results_witness:
  "fst (web_search (fixed_client (Returns (Response (Some [])))) 0 ''leads'' 5
      (initial_world 1000)) = Inr ''No results found.''"
  using web_search_no_results [of "fixed_client (Returns (Response (Some [])))" "''leads''" 5
      "Response (Some [])" 0 "initial_world 1000"]
  by (simp add: fixed_client_def)

subsection \<open>Formatting of the entries\<close>

text \<open>
  An entry with a title, a url and a \<^verbatim>\<open>content\<close> field but no \<^verbatim>\<open>snippet\<close> field: the tool
  prints the content, where the format worded by the specification would print the
  placeholder.
\<close>

theorem web_search_missing_snippet_counterexample:
  "fst (web_search
      (fixed_client (Returns (Response (Some
        [map_of [(''title'', PyStr ''T''), (''url'', PyStr ''U''), (''content'', PyStr ''C'')]]))))
      0 ''leads'' 5 (initial_world 1000)) = Inr ''- T (U): C''
   \<and> str_join [CHR 0x0A] (map spec_format_entry
        [map_of [(''title'', PyStr ''T''), (''url'', PyStr ''U''), (''content'', PyStr ''C'')]])
      = ''- T (U): No snippet available''"
  by (simp add: web_search_returns fixed_client_def format_entry_def spec_format_entry_def
      spec_field_def dict_get_def py_or_def Let_def)

text \<open>
  Claim C7, amended. For a response with a non-empty result list, the tool returns the
  lines of the entries joined by newlines, one line per entry, in the provider's order.
  A line is \<^verbatim>\<open>- {title} ({url}): {snippet}\<close>, where a missing title is replaced by
  \<^verbatim>\<open>No Title\<close>, a missing url by \<^verbatim>\<open>No URL\<close>, and the snippet is the field \<^verbatim>\<open>snippet\<close> when
  it is present and not empty, otherwise the field \<^verbatim>\<open>content\<close> when it is present and not
  empty, otherwise \<^verbatim>\<open>No snippet available\<close>.
\<close>

theorem web_search_formats_entries:
  assumes "tavily_client query max_results = Returns res"
      and "results res = Some rs"
      and "rs \<noteq> []"
  shows "fst (web_search tavily_client lag query max_results w) =
           Inr (str_join [CHR 0x0A] (map entry_line rs))
       \<and> length (map entry_line rs) = length rs"
  using assms web_search_returns [of tavily_client lag query max_results w]
  by (simp add: format_entry_eq)

theorem web_search_formats_entries_witness:
  "fst (web_search
      (fixed_client (Returns (Response (Some
        [map_of [(''title'', PyStr ''T''), (''url'', PyStr ''U''), (''content'', PyStr ''C'')],
         map_of [(''snippet'', PyStr ''S''), (''content'', PyStr ''C'')],
         map_of [(''title'', PyStr ''X''), (''snippet'', PyStr [])]]))))
      0 ''leads'' 5 (initial_world 1000)) =
     Inr (''- T (U): C'' @ [CHR 0x0A] @ ''- No Title (No URL): S'' @ [CHR 0x0A]
            @ ''- X (No URL): No snippet available'')"
  using web_search_formats_entries [of
      "fixed_client (Returns (Response (Some
        [map_of [(''title'', PyStr ''T''), (''url'', PyStr ''U''), (''content'', PyStr ''C'')],
         map_of [(''snippet'', PyStr ''S''), (''content'', PyStr ''C'')],
         map_of [(''title'', PyStr ''X''), (''snippet'', PyStr [])]])))"
      "''leads''" 5
      "Response (Some
        [map_of [(''title'', PyStr ''T''), (''url'', PyStr ''U''), (''content'', PyStr ''C'')],
         map_of [(''snippet'', PyStr ''S''), (''content'', PyStr ''C'')],
         map_of [(''title'', PyStr ''X''), (''snippet'', PyStr [])]])"
      "[map_of [(''title'', PyStr ''T''), (''url'', PyStr ''U''), (''content'', PyStr ''C'')],
         map_of [(''snippet'', PyStr ''S''), (''content'', PyStr ''C'')],
         map_of [(''title'', PyStr ''X''), (''snippet'', PyStr [])]]"
      0 "initial_world 1000"]
  by (simp add: fixed_client_def entry_line_def spec_field_def snippet_or_content_def
      nonempty_field_def)

subsection \<open>A failed search still counts for the limiter\<close>

text \<open>
  Claim C10. \<open>last_call_time\<close> is set when the provider call is issued, to the same value
  whatever the provider then does. So when the provider raises and the tool returns the
  failure string, the next search is still issued at least 6 seconds after the failed
  one was.
\<close>

theorem failed_search_still_throttles:
  assumes "tc1 q1 m1 = Raises e"
      and "0 \<le> lag2"
      and "web_search tc1 lag1 q1 m1 w = (r1, w1)"
      and "web_search tc2 lag2 q2 m2 (elapse idle w1) = (r2, w2)"
  shows "r1 = Inr (''WebSearchTool failed: '' @ exc_msg e)
       \<and> last_call_time w1 = clock w1
       \<and> issued w1 = issued w @ [last_call_time w1]
       \<and> last_call_time (snd (web_search tc3 lag1 q1 m1 w)) = last_call_time w1
       \<and> issued w2 = issued w1 @ [last_call_time w2]
       \<and> last_call_time w1 + 6 \<le> last_call_time w2"
proof -
  have r1: "r1 = fst (web_search tc1 lag1 q1 m1 w)" and w1: "w1 = snd (web_search tc1 lag1 q1 m1 w)"
    using assms(3) by simp_all
  have w2: "w2 = snd (web_search tc2 lag2 q2 m2 (elapse idle w1))"
    using assms(4) by simp
  have "r1 = Inr (''WebSearchTool failed: '' @ exc_msg e)"
    unfolding r1 using assms(1) by (simp add: web_search_returns)
  moreover have "last_call_time w1 = clock w1"
    unfolding w1 by (simp add: web_search_clock)
  moreover have "issued w1 = issued w @ [last_call_time w1]"
    unfolding w1 by (rule web_search_issued)
  moreover have "last_call_time (snd (web_search tc3 lag1 q1 m1 w)) = last_call_time w1"
    unfolding w1 by (simp add: web_search_start)
  moreover have "issued w2 = issued w1 @ [last_call_time w2]"
    unfolding w2 by (simp add: web_search_issued elapse_def)
  moreover have "last_call_time w1 + 6 \<le> last_call_time w2"
    unfolding w2 using assms(2) by (simp add: web_search_start elapse_def)
  ultimately show ?thesis by simp
qed

theorem failed_search_still_throttles_witness:
  "fst (web_search (fixed_client (Raises (Exc PyException ''boom''))) 0 ''leads'' 5
      (initial_world 1000)) = Inr ''WebSearchTool failed: boom''
   \<and> last_call_time (snd (web_search (fixed_client (Raises (Exc PyException ''boom''))) 0
        ''leads'' 5 (initial_world 1000))) = 1000
   \<and> last_call_time (snd (web_search (fixed_client (Returns (Response None))) 0 ''crm'' 5
        (elapse 2 (snd (web_search (fixed_client (Raises (Exc PyException ''boom''))) 0
          ''leads'' 5 (initial_world 1000)))))) = 1006"
proof -
  let ?c1 = "fixed_client (Raises (Exc PyException ''boom''))"
  let ?c2 = "fixed_client (Returns (Response None))"
  let ?x1 = "web_search ?c1 0 ''leads'' 5 (initial_world 1000)"
  let ?x2 = "web_search ?c2 0 ''crm'' 5 (elapse 2 (snd ?x1))"
  have raises: "?c1 ''leads'' 5 = Raises (Exc PyException ''boom'')"
    by (simp add: fixed_client_def)
  have lag: "(0::real) \<le> 0" by simp
  have one: "?x1 = (fst ?x1, snd ?x1)" by simp
  have two: "?x2 = (fst ?x2, snd ?x2)" by simp
  have t1: "last_call_time (snd ?x1) = 1000"
    by (simp add: web_search_start initial_world_def)
  have t2: "last_call_time (snd ?x2) = 1006"
    by (simp add: web_search_start web_search_clock elapse_def initial_world_def)
  from failed_search_still_throttles [where ?tc1.0 = ?c1 and ?q1.0 = "''leads''" and ?m1.0 = 5
      and e = "Exc PyException ''boom''" and ?lag2.0 = 0 and ?lag1.0 = 0
      and w = "initial_world 1000" and ?r1.0 = "fst ?x1" and ?w1.0 = "snd ?x1"
      and ?tc2.0 = ?c2 and ?q2.0 = "''crm''" and ?m2.0 = 5 and idle = 2
      and ?r2.0 = "fst ?x2" and ?w2.0 = "snd ?x2" and ?tc3.0 = ?c2,
      OF raises lag one two]
  show ?thesis
    using t1 t2 by simp
qed

section \<open>Properties of the retry wrapper\<close>

subsection \<open>One turn of the loop, and several\<close>

lemma safe_run_loop_retry:
  assumes "int attempt < max_retries"
      and "run_sync agent prompt max_turns (runs w) = Raise e"
      and "transient e"
      and "0 \<le> base_delay"
  shows "\<exists>w'. safe_run_loop run_sync agent prompt max_turns max_retries base_delay attempt w =
              safe_run_loop run_sync agent prompt max_turns max_retries base_delay (Suc attempt) w'
            \<and> runs w' = Suc (runs w)
            \<and> slept w' = slept w @ [real_of_int (base_delay * 2 ^ attempt)]"
proof -
  have nonneg: "\<not> base_delay * 2 ^ attempt < 0"
    using assms(4) by (simp add: not_less)
  show ?thesis
  proof (cases "exc_cls e = RateLimitError")
    case True
    show ?thesis
      apply (subst safe_run_loop.simps)
      using assms(1,2) True nonneg
      apply (simp add: time_sleep_def Let_def)
      apply (rule exI, rule conjI, rule refl)
      apply simp
      done
  next
    case False
    then have "contains ''RESOURCE_EXHAUSTED'' (exc_msg e) \<or> contains ''429'' (exc_msg e)"
      using assms(3) by (simp add: transient_def)
    then show ?thesis
      apply (subst safe_run_loop.simps)
      using assms(1,2) False nonneg
      apply (simp add: time_sleep_def Let_def)
      apply (rule exI, rule conjI, rule refl)
      apply simp
      done
  qed
qed

lemma backoff_Suc:
  "map (\<lambda>k. real_of_int (b * 2 ^ (a + k))) [0..<Suc n] =
     real_of_int (b * 2 ^ a) # map (\<lambda>k. real_of_int (b * 2 ^ (Suc a + k))) [0..<n]"
proof -
  have "[0..<Suc n] = 0 # map Suc [0..<n]"
    by (simp add: upt_conv_Cons map_Suc_upt del: upt_Suc)
  then show ?thesis
    by (simp add: comp_def del: upt_Suc)
qed

lemma safe_run_loop_retries:
  assumes "\<forall>k<n. \<exists>e. run_sync agent prompt max_turns (runs w + k) = Raise e \<and> transient e"
      and "int attempt + int n \<le> max_retries"
      and "0 \<le> base_delay"
  shows "\<exists>w'. safe_run_loop run_sync agent prompt max_turns max_retries base_delay attempt w =
              safe_run_loop run_sync agent prompt max_turns max_retries base_delay (attempt + n) w'
            \<and> runs w' = runs w + n
            \<and> slept w' = slept w @ map (\<lambda>k. real_of_int (base_delay * 2 ^ (attempt + k))) [0..<n]"
  using assms
proof (induction n arbitrary: attempt w)
  case 0
  then show ?case by auto
next
  case (Suc n)
  from Suc.prems(1) obtain e where e: "run_sync agent prompt max_turns (runs w) = Raise e"
    "transient e"
    by force
  have lt: "int attempt < max_retries" using Suc.prems(2) by simp
  from safe_run_loop_retry[where run_sync=run_sync and agent=agent and prompt=prompt and max_turns=max_turns and w=w, OF lt e Suc.prems(3)] obtain w1 where w1:
    "safe_run_loop run_sync agent prompt max_turns max_retries base_delay attempt w =
       safe_run_loop run_sync agent prompt max_turns max_retries base_delay (Suc attempt) w1"
    "runs w1 = Suc (runs w)"
    "slept w1 = slept w @ [real_of_int (base_delay * 2 ^ attempt)]"
    by blast
  have "\<forall>k<n. \<exists>e. run_sync agent prompt max_turns (runs w1 + k) = Raise e \<and> transient e"
  proof (intro allI impI)
    fix k assume "k < n"
    then have "Suc k < Suc n" by simp
    with Suc.prems(1) have "\<exists>e. run_sync agent prompt max_turns (runs w + Suc k) = Raise e \<and> transient e"
      by blast
    then show "\<exists>e. run_sync agent prompt max_turns (runs w1 + k) = Raise e \<and> transient e"
      by (simp add: w1(2))
  qed
  moreover have "int (Suc attempt) + int n \<le> max_retries" using Suc.prems(2) by simp
  ultimately obtain w' where w':
    "safe_run_loop run_sync agent prompt max_turns max_retries base_delay (Suc attempt) w1 =
       safe_run_loop run_sync agent prompt max_turns max_retries base_delay (Suc attempt + n) w'"
    "runs w' = runs w1 + n"
    "slept w' = slept w1 @ map (\<lambda>k. real_of_int (base_delay * 2 ^ (Suc attempt + k))) [0..<n]"
    using Suc.IH[of w1 "Suc attempt"] Suc.prems(3) by blast
  have "slept w' = slept w @ map (\<lambda>k. real_of_int (base_delay * 2 ^ (attempt + k))) [0..<Suc n]"
    unfolding backoff_Suc using w'(3) w1(3) by simp
  then show ?case
    using w1 w' by (intro exI[of _ w']) simp
qed

lemma safe_run_loop_exhausted:
  "\<not> int attempt < max_retries \<Longrightarrow>
     safe_run_loop run_sync agent prompt max_turns max_retries base_delay attempt w =
       (Inl (Exc PyException ''Too many retries, giving up.''), w)"
  by (subst safe_run_loop.simps) simp

lemma safe_run_loop_success:
  "int attempt < max_retries \<Longrightarrow> run_sync agent prompt max_turns (runs w) = Ok r \<Longrightarrow>
     safe_run_loop run_sync agent prompt max_turns max_retries base_delay attempt w =
       (Inr r, w\<lparr>runs := Suc (runs w)\<rparr>)"
  by (subst safe_run_loop.simps) (simp add: Let_def)

lemma safe_run_loop_fatal:
  "int attempt < max_retries \<Longrightarrow> run_sync agent prompt max_turns (runs w) = Raise e \<Longrightarrow>
     \<not> transient e \<Longrightarrow>
     safe_run_loop run_sync agent prompt max_turns max_retries base_delay attempt w =
       (Inl e, w\<lparr>runs := Suc (runs w)\<rparr>)"
  by (subst safe_run_loop.simps) (simp add: Let_def transient_def)

subsection \<open>Retries exhausted\<close>

text \<open>
  Claim C2. When every attempt fails with a transient error, the wrapper calls the runner
  exactly \<open>max_retries\<close> times (no time when \<open>max_retries\<close> is not positive), sleeps
  \<open>base_delay * 2 ^ k\<close> after attempt \<open>k\<close>, and then raises an exception with the message
  \<^verbatim>\<open>Too many retries, giving up.\<close>: the caller gets no result. The base delay is taken
  not to be negative, as a delay is.
\<close>

theorem safe_run_sync_exhausts:
  assumes "\<forall>k < nat max_retries.
             \<exists>e. run_sync agent prompt max_turns (runs w + k) = Raise e \<and> transient e"
      and "0 \<le> base_delay"
  shows "fst (safe_run_sync run_sync agent prompt max_turns max_retries base_delay w) =
           Inl (Exc PyException ''Too many retries, giving up.'')
       \<and> runs (snd (safe_run_sync run_sync agent prompt max_turns max_retries base_delay w)) =
           runs w + nat max_retries
       \<and> slept (snd (safe_run_sync run_sync agent prompt max_turns max_retries base_delay w)) =
           slept w @ backoff base_delay (nat max_retries)"
proof -
  show ?thesis
  proof (cases "0 \<le> max_retries")
    case True
    then have le: "int 0 + int (nat max_retries) \<le> max_retries" by simp
    from safe_run_loop_retries[where attempt=0 and n="nat max_retries" and run_sync=run_sync and agent=agent and prompt=prompt and max_turns=max_turns and w=w, OF assms(1) le assms(2)] obtain w' where w':
      "safe_run_loop run_sync agent prompt max_turns max_retries base_delay 0 w =
         safe_run_loop run_sync agent prompt max_turns max_retries base_delay (0 + nat max_retries) w'"
      "runs w' = runs w + nat max_retries"
      "slept w' = slept w @ map (\<lambda>k. real_of_int (base_delay * 2 ^ (0 + k))) [0..<nat max_retries]"
      by blast
    have "\<not> int (0 + nat max_retries) < max_retries" using True by simp
    from safe_run_loop_exhausted[OF this] w' show ?thesis
      by (simp add: safe_run_sync_def backoff_def)
  next
    case False
    then have "\<not> int 0 < max_retries" by simp
    from safe_run_loop_exhausted[OF this] False show ?thesis
      by (simp add: safe_run_sync_def backoff_def)
  qed
qed

theorem safe_run_sync_exhausts_witness:
  "fst (main_run (scripted_runner [] (Raise (Exc (OtherError ''APIError'') ''Error code: 429'')))
      (initial_world 1000)) = Inl (Exc PyException ''Too many retries, giving up.'')
   \<and> runs (snd (main_run
        (scripted_runner [] (Raise (Exc (OtherError ''APIError'') ''Error code: 429'')))
        (initial_world 1000))) = 5
   \<and> slept (snd (main_run
        (scripted_runner [] (Raise (Exc (OtherError ''APIError'') ''Error code: 429'')))
        (initial_world 1000))) = [5, 10, 20, 40, 80]"
proof -
  let ?run = "scripted_runner [] (Raise (Exc (OtherError ''APIError'') ''Error code: 429''))"
  have every: "\<forall>k < nat 5. \<exists>e. ?run orchestrator_agent research_prompt 20
      (runs (initial_world 1000) + k) = Raise e \<and> transient e"
    by (simp add: scripted_runner_def transient_def)
  have delay: "(0::int) \<le> 5" by simp
  have five: "[0..<5] = [0, 1, 2, 3, 4]"
    by (simp add: upt_rec)
  from safe_run_sync_exhausts [where run_sync = ?run and agent = orchestrator_agent
      and prompt = research_prompt and max_turns = 20 and max_retries = 5 and base_delay = 5
      and w = "initial_world 1000", OF every delay]
  show ?thesis
    by (simp add: main_run_def initial_world_def backoff_def five)
qed

subsection \<open>Success after transient failures\<close>

text \<open>
  Claim C3. When the first \<open>n\<close> attempts fail with a transient error and the next one
  succeeds, within the retry budget, the wrapper returns exactly the successful result
  after \<open>n + 1\<close> calls of the runner, and the sleeps are \<open>base_delay * 2 ^ k\<close> for
  \<open>k = 0, \<dots>, n - 1\<close>. For two failures followed by a success that is two sleeps, of
  \<open>base_delay\<close> and \<open>2 * base_delay\<close>. The base delay is taken not to be negative.
\<close>

theorem safe_run_sync_backoff:
  assumes "\<forall>k<n. \<exists>e. run_sync agent prompt max_turns (runs w + k) = Raise e \<and> transient e"
      and "run_sync agent prompt max_turns (runs w + n) = Ok r"
      and "int n < max_retries"
      and "0 \<le> base_delay"
  shows "fst (safe_run_sync run_sync agent prompt max_turns max_retries base_delay w) = Inr r
       \<and> runs (snd (safe_run_sync run_sync agent prompt max_turns max_retries base_delay w)) =
           runs w + n + 1
       \<and> slept (snd (safe_run_sync run_sync agent prompt max_turns max_retries base_delay w)) =
           slept w @ backoff base_delay n
       \<and> (n = 2 \<longrightarrow>
            slept (snd (safe_run_sync run_sync agent prompt max_turns max_retries base_delay w)) =
              slept w @ [real_of_int base_delay, real_of_int (2 * base_delay)])"
proof -
  have le: "int 0 + int n \<le> max_retries" using assms(3) by simp
  from safe_run_loop_retries[where attempt=0 and n=n and run_sync=run_sync and agent=agent and prompt=prompt and max_turns=max_turns and w=w, OF assms(1) le assms(4)] obtain w' where w':
    "safe_run_loop run_sync agent prompt max_turns max_retries base_delay 0 w =
       safe_run_loop run_sync agent prompt max_turns max_retries base_delay (0 + n) w'"
    "runs w' = runs w + n"
    "slept w' = slept w @ map (\<lambda>k. real_of_int (base_delay * 2 ^ (0 + k))) [0..<n]"
    by blast
  have ok: "run_sync agent prompt max_turns (runs w') = Ok r" using assms(2) w'(2) by simp
  have lt: "int (0 + n) < max_retries" using assms(3) by simp
  have two: "backoff base_delay 2 = [real_of_int base_delay, real_of_int (2 * base_delay)]"
    by (simp add: backoff_def numeral_2_eq_2)
  from safe_run_loop_success[where run_sync=run_sync and agent=agent and prompt=prompt and max_turns=max_turns and w=w', OF lt ok] w' two show ?thesis
    by (auto simp: safe_run_sync_def backoff_def)
qed

theorem safe_run_sync_backoff_witness:
  "fst (main_run
      (scripted_runner
        [Raise (Exc (OtherError ''APIError'') ''RESOURCE_EXHAUSTED''),
         Raise (Exc (OtherError ''APIError'') ''RESOURCE_EXHAUSTED'')]
        (Ok (RunResult ''REPORT'')))
      (initial_world 1000)) = Inr (RunResult ''REPORT'')
   \<and> runs (snd (main_run
        (scripted_runner
          [Raise (Exc (OtherError ''APIError'') ''RESOURCE_EXHAUSTED''),
           Raise (Exc (OtherError ''APIError'') ''RESOURCE_EXHAUSTED'')]
          (Ok (RunResult ''REPORT'')))
        (initial_world 1000))) = 3
   \<and> slept (snd (main_run
        (scripted_runner
          [Raise (Exc (OtherError ''APIError'') ''RESOURCE_EXHAUSTED''),
           Raise (Exc (OtherError ''APIError'') ''RESOURCE_EXHAUSTED'')]
          (Ok (RunResult ''REPORT'')))
        (initial_world 1000))) = [5, 10]"
proof -
  let ?run = "scripted_runner
      [Raise (Exc (OtherError ''APIError'') ''RESOURCE_EXHAUSTED''),
       Raise (Exc (OtherError ''APIError'') ''RESOURCE_EXHAUSTED'')]
      (Ok (RunResult ''REPORT''))"
  have fails: "\<forall>k<2. \<exists>e. ?run orchestrator_agent research_prompt 20
      (runs (initial_world 1000) + k) = Raise e \<and> transient e"
    by (auto simp: scripted_runner_def transient_def initial_world_def less_2_cases_iff)
  have third: "?run orchestrator_agent research_prompt 20 (runs (initial_world 1000) + 2) =
      Ok (RunResult ''REPORT'')"
    by (simp add: scripted_runner_def)
  have budget: "int 2 < 5" by simp
  have delay: "(0::int) \<le> 5" by simp
  from safe_run_sync_backoff [where run_sync = ?run and agent = orchestrator_agent
      and prompt = research_prompt and max_turns = 20 and max_retries = 5 and base_delay = 5
      and w = "initial_world 1000" and n = 2 and r = "RunResult ''REPORT''",
      OF fails third budget delay]
  show ?thesis
    by (simp add: main_run_def initial_world_def backoff_def numeral_2_eq_2)
qed

subsection \<open>Other errors are raised again at once\<close>

text \<open>
  Claim C4. When the first attempt raises an exception that is not transient, the
  wrapper raises that same exception after this one call of the runner: nothing is
  slept, nothing is printed, and no further attempt is made.
\<close>

theorem safe_run_sync_reraises:
  assumes "0 < max_retries"
      and "run_sync agent prompt max_turns (runs w) = Raise e"
      and "\<not> transient e"
  shows "safe_run_sync run_sync agent prompt max_turns max_retries base_delay w =
           (Inl e, w\<lparr>runs := Suc (runs w)\<rparr>)"
proof -
  have "int 0 < max_retries" using assms(1) by simp
  from safe_run_loop_fatal[where run_sync=run_sync and agent=agent and prompt=prompt and max_turns=max_turns and w=w, OF this assms(2,3)] show ?thesis
    by (simp add: safe_run_sync_def)
qed

theorem safe_run_sync_reraises_witness:
  "main_run (scripted_runner [] (Raise (Exc ValueError ''invalid api key''))) (initial_world 1000) =
     (Inl (Exc ValueError ''invalid api key''),
      \<lparr>clock = 1000, last_call_time = 0, issued = [], slept = [], printed = [], runs = 1\<rparr>)"
proof -
  let ?run = "scripted_runner [] (Raise (Exc ValueError ''invalid api key''))"
  have budget: "(0::int) < 5" by simp
  have first: "?run orchestrator_agent research_prompt 20 (runs (initial_world 1000)) =
      Raise (Exc ValueError ''invalid api key'')"
    by (simp add: scripted_runner_def)
  have fatal: "\<not> transient (Exc ValueError ''invalid api key'')"
    by (simp add: transient_def)
  from safe_run_sync_reraises [where run_sync = ?run and agent = orchestrator_agent
      and prompt = research_prompt and max_turns = 20 and max_retries = 5 and base_delay = 5
      and w = "initial_world 1000", OF budget first fatal]
  show ?thesis
    by (simp add: main_run_def initial_world_def)
qed

section \<open>The orchestrator's tool list\<close>




end
